theory Spec2Isabelle
  imports Complex_Main
begin

section \<open>The Match document\<close>

text \<open>
  The Match model of the tournament backend (the Mongoose schema \<open>matchSchema\<close>) and the
  controller entry points that drive it. An ObjectId is a natural number, a \<open>Date\<close> is its
  number of milliseconds since the epoch, and a schema path that may be absent is an
  \<open>option\<close>. Numeric paths hold integers; \<open>round\<close> and \<open>bestOf\<close>, which a create request
  can set to \<open>null\<close>, are \<open>None\<close> when they hold \<open>null\<close>. The path \<open>_id\<close> is the field \<open>oid\<close>,
  \<open>score.teamA\<close> and \<open>score.teamB\<close> are \<open>score_teamA\<close> and \<open>score_teamB\<close>, \<open>round\<close> is
  \<open>round_no\<close>, and the notes of a match and the duration and notes of a game carry the
  name of their document.
\<close>

type_synonym objid = nat
type_synonym date = int

datatype status = Scheduled | Ongoing | Completed | Cancelled | Postponed

datatype bracket = Winners | Losers | Finals | Group

record game =
  gameNumber :: int
  teamAScore :: int
  teamBScore :: int
  winner :: "objid option"
  game_duration :: int
  game_notes :: string

record match =
  oid :: objid
  tournamentId :: objid
  teamAId :: objid
  teamBId :: objid
  scheduleAt :: date
  result :: string
  score_teamA :: int
  score_teamB :: int
  status :: status
  round_no :: "int option"
  bracket :: bracket
  duration :: int
  startTime :: "date option"
  endTime :: "date option"
  winnerId :: "objid option"
  bestOf :: "int option"
  games :: "game list"
  streamUrl :: string
  match_notes :: "string option"
  refereeId :: "objid option"

section \<open>Saving a document\<close>

text \<open>
  \<open>save\<close> first runs the validators declared in the schema (Mongoose registers its
  validation hook ahead of the hooks of the schema) and then the \<open>pre('save')\<close> hook of the
  schema. A failed validator rejects with an error named \<open>ValidationError\<close>; the hook
  rejects with a plain \<open>Error\<close> carrying its message. Mongoose runs the validators of
  the paths that were assigned; a document that was stored passed the validators of its
  other paths when it was stored, so \<open>validators\<close> runs them all. The paths that the
  schema requires are always present in a \<open>match\<close>. The \<open>min\<close> validator of a number path
  passes \<open>null\<close>, and neither \<open>round\<close> nor \<open>bestOf\<close> is required.
\<close>

datatype save_error = ValidationError | Error string

definition validators :: "match \<Rightarrow> bool" where
  "validators m \<longleftrightarrow>
     length (result m) \<le> 200 \<and>
     0 \<le> score_teamA m \<and>
     0 \<le> score_teamB m \<and>
     (case round_no m of None \<Rightarrow> True | Some r \<Rightarrow> 1 \<le> r) \<and>
     (case bestOf m of None \<Rightarrow> True | Some b \<Rightarrow> 1 \<le> b) \<and>
     (case match_notes m of None \<Rightarrow> True | Some n \<Rightarrow> length n \<le> 1000)"

definition pre_save :: "match \<Rightarrow> save_error + match" where
  "pre_save m =
     (if teamAId m = teamBId m then Inl (Error ''Team A and Team B cannot be the same'')
      else if (case (endTime m, startTime m) of
                 (Some e, Some s) \<Rightarrow> e \<le> s
               | _ \<Rightarrow> False)
        then Inl (Error ''End time must be after start time'')
      else Inr m)"

definition save :: "match \<Rightarrow> save_error + match" where
  "save m = (if validators m then pre_save m else Inl ValidationError)"

section \<open>Instance methods\<close>

text \<open>
  Each method mutates the document and returns \<open>this.save()\<close>. The clock read by
  \<open>new Date()\<close> is the argument \<open>now\<close>. The value is the saved document, or the error the
  save rejected with, in which case nothing was stored.
\<close>

definition setResult :: "match \<Rightarrow> string \<Rightarrow> int \<Rightarrow> int \<Rightarrow> date \<Rightarrow> save_error + match" where
  "setResult m res scoreA scoreB now =
     (let m1 = m\<lparr>result := res, score_teamA := scoreA, score_teamB := scoreB\<rparr>;
          m2 = (if scoreA > scoreB then m1\<lparr>winnerId := Some (teamAId m1)\<rparr>
                else if scoreB > scoreA then m1\<lparr>winnerId := Some (teamBId m1)\<rparr>
                else m1)
      in save (m2\<lparr>status := Completed, endTime := Some now\<rparr>))"

definition rescheduleNewDate :: "match \<Rightarrow> date \<Rightarrow> save_error + match" where
  "rescheduleNewDate m newDate = save (m\<lparr>scheduleAt := newDate, status := Scheduled\<rparr>)"

definition start :: "match \<Rightarrow> date \<Rightarrow> save_error + match" where
  "start m now = save (m\<lparr>status := Ongoing, startTime := Some now\<rparr>)"

text \<open>The parameter \<open>reason = ''\<close> takes its default when the argument is undefined.\<close>

definition cancel :: "match \<Rightarrow> string option \<Rightarrow> save_error + match" where
  "cancel m reason =
     save (m\<lparr>status := Cancelled, match_notes := Some (case reason of None \<Rightarrow> [] | Some r \<Rightarrow> r)\<rparr>)"

definition postpone :: "match \<Rightarrow> string option \<Rightarrow> save_error + match" where
  "postpone m reason =
     save (m\<lparr>status := Postponed, match_notes := Some (case reason of None \<Rightarrow> [] | Some r \<Rightarrow> r)\<rparr>)"

text \<open>
  \<open>Math.ceil(this.bestOf / 2)\<close>: the division is the real one, and \<open>null / 2\<close> is 0.
\<close>

definition requiredWins :: "match \<Rightarrow> int" where
  "requiredWins m =
     (case bestOf m of None \<Rightarrow> 0 | Some b \<Rightarrow> \<lceil>real_of_int b / 2\<rceil>)"

text \<open>\<open>game.winner && game.winner.equals(team)\<close>: a game with no winner passes for no team.\<close>

definition won_by :: "objid \<Rightarrow> game \<Rightarrow> bool" where
  "won_by team g = (case winner g of None \<Rightarrow> False | Some w \<Rightarrow> w = team)"

definition teamAWins :: "match \<Rightarrow> int" where
  "teamAWins m = int (length (filter (won_by (teamAId m)) (games m)))"

definition teamBWins :: "match \<Rightarrow> int" where
  "teamBWins m = int (length (filter (won_by (teamBId m)) (games m)))"

definition addGame :: "match \<Rightarrow> game \<Rightarrow> date \<Rightarrow> save_error + match" where
  "addGame m gameData now =
     (let m1 = m\<lparr>games := games m @ [gameData]\<rparr>
      in if teamAWins m1 \<ge> requiredWins m1
           then save (m1\<lparr>winnerId := Some (teamAId m1), status := Completed, endTime := Some now\<rparr>)
         else if teamBWins m1 \<ge> requiredWins m1
           then save (m1\<lparr>winnerId := Some (teamBId m1), status := Completed, endTime := Some now\<rparr>)
         else save m1)"

section \<open>The controller\<close>

text \<open>
  The database holds the ids of the stored tournaments, for each stored competitor its id
  and the tournament it is registered in, and the Match collection. A controller action
  takes the database and the request and gives the reply with the database it leaves. A
  reply is the HTTP status, the message and the match carried in \<open>data\<close>.
\<close>

record database =
  Tournament_docs :: "objid list"
  Competitor_docs :: "(objid \<times> objid) list"
  Match_docs :: "objid \<Rightarrow> match option"

datatype response = Response (code: nat) (message: string) (data: "match option")

definition Tournament_findById :: "database \<Rightarrow> objid \<Rightarrow> bool" where
  "Tournament_findById db tid \<longleftrightarrow> tid \<in> set (Tournament_docs db)"

text \<open>\<open>Competitor.findOne({ _id, tournamentId })\<close>\<close>

definition Competitor_findOne :: "database \<Rightarrow> objid \<Rightarrow> objid \<Rightarrow> bool" where
  "Competitor_findOne db cid tid \<longleftrightarrow> (cid, tid) \<in> set (Competitor_docs db)"

definition store :: "database \<Rightarrow> objid \<Rightarrow> match \<Rightarrow> database" where
  "store db i m = db\<lparr>Match_docs := (Match_docs db)(i \<mapsto> m)\<rparr>"

text \<open>
  The body of a create request. \<open>scheduleAt\<close> is \<open>None\<close> when \<open>new Date(scheduleAt)\<close> is
  not a date, and \<open>bracket\<close> is \<open>None\<close> when the body leaves it out. \<open>round\<close> and \<open>bestOf\<close>
  are left out, \<open>null\<close> or a number. The destructuring and the schema put their defaults
  in place of a value that is left out, and of no other: a \<open>null\<close> is stored as it is.
\<close>

datatype body_number = Undefined | Null | Number int

definition number_or_default :: "body_number \<Rightarrow> int \<Rightarrow> int option" where
  "number_or_default x d = (case x of Undefined \<Rightarrow> Some d | Null \<Rightarrow> None | Number n \<Rightarrow> Some n)"

record create_body =
  body_tournamentId :: objid
  body_teamAId :: objid
  body_teamBId :: objid
  body_scheduleAt :: "date option"
  body_round :: body_number
  body_bracket :: "string option"
  body_bestOf :: body_number
  body_refereeId :: "objid option"

definition bracket_enum :: "string \<Rightarrow> bracket option" where
  "bracket_enum s =
     (if s = ''winners'' then Some Winners
      else if s = ''losers'' then Some Losers
      else if s = ''finals'' then Some Finals
      else if s = ''group'' then Some Group
      else None)"

text \<open>
  \<open>new Match({...})\<close> with the defaults of the schema on the paths not given. The id of
  the new document is the argument \<open>new_id\<close>.
\<close>

definition new_Match :: "objid \<Rightarrow> create_body \<Rightarrow> date \<Rightarrow> bracket \<Rightarrow> match" where
  "new_Match new_id body sched br =
     \<lparr> oid = new_id,
       tournamentId = body_tournamentId body,
       teamAId = body_teamAId body,
       teamBId = body_teamBId body,
       scheduleAt = sched,
       result = [],
       score_teamA = 0,
       score_teamB = 0,
       status = Scheduled,
       round_no = number_or_default (body_round body) 1,
       bracket = br,
       duration = 0,
       startTime = None,
       endTime = None,
       winnerId = None,
       bestOf = number_or_default (body_bestOf body) 1,
       games = [],
       streamUrl = [],
       match_notes = None,
       refereeId = body_refereeId body \<rparr>"

text \<open>
  \<open>createMatch\<close>. A date that does not cast and a bracket outside the enum fail the
  validation of the save, as the other validators do; the \<open>catch\<close> answers 400 to an error
  named \<open>ValidationError\<close> and 500 to every other error.
\<close>

definition createMatch :: "database \<Rightarrow> create_body \<Rightarrow> objid \<Rightarrow> response \<times> database" where
  "createMatch db body new_id =
     (if \<not> Tournament_findById db (body_tournamentId body)
        then (Response 404 ''Tournament not found'' None, db)
      else if \<not> Competitor_findOne db (body_teamAId body) (body_tournamentId body) \<or>
              \<not> Competitor_findOne db (body_teamBId body) (body_tournamentId body)
        then (Response 400 ''One or both competitors not found in this tournament'' None, db)
      else
        (case (body_scheduleAt body,
               bracket_enum (case body_bracket body of None \<Rightarrow> ''winners'' | Some s \<Rightarrow> s)) of
           (Some sched, Some br) \<Rightarrow>
             (case save (new_Match new_id body sched br) of
                Inr m \<Rightarrow> (Response 201 ''Match created successfully'' (Some m), store db (oid m) m)
              | Inl ValidationError \<Rightarrow> (Response 400 ''Validation failed'' None, db)
              | Inl (Error _) \<Rightarrow> (Response 500 ''Server error while creating match'' None, db))
         | _ \<Rightarrow> (Response 400 ''Validation failed'' None, db)))"


text \<open>\<open>reason || 'No reason provided'\<close>: an absent and an empty reason are both falsy.\<close>

definition reason_or_default :: "string option \<Rightarrow> string" where
  "reason_or_default reason =
     (case reason of
        None \<Rightarrow> ''No reason provided''
      | Some r \<Rightarrow> if r = [] then ''No reason provided'' else r)"

definition cancelMatch :: "database \<Rightarrow> objid \<Rightarrow> string option \<Rightarrow> response \<times> database" where
  "cancelMatch db i reason =
     (case Match_docs db i of
        None \<Rightarrow> (Response 404 ''Match not found'' None, db)
      | Some m \<Rightarrow>
          (case cancel m (Some (reason_or_default reason)) of
             Inr m' \<Rightarrow> (Response 200 ''Match cancelled successfully'' (Some m'), store db i m')
           | Inl _ \<Rightarrow> (Response 500 ''Server error while cancelling match'' None, db)))"

definition postponeMatch :: "database \<Rightarrow> objid \<Rightarrow> string option \<Rightarrow> response \<times> database" where
  "postponeMatch db i reason =
     (case Match_docs db i of
        None \<Rightarrow> (Response 404 ''Match not found'' None, db)
      | Some m \<Rightarrow>
          (case postpone m (Some (reason_or_default reason)) of
             Inr m' \<Rightarrow> (Response 200 ''Match postponed successfully'' (Some m'), store db i m')
           | Inl _ \<Rightarrow> (Response 500 ''Server error while postponing match'' None, db)))"

text \<open>
  The body of an add-game request. A score is \<open>None\<close> when \<open>parseInt\<close> gives \<open>NaN\<close>;
  \<open>x || d\<close> takes \<open>d\<close> for an absent \<open>x\<close> and for a zero or empty one.
\<close>

record game_body =
  body_gameNumber :: "int option"
  body_teamAScore :: "int option"
  body_teamBScore :: "int option"
  body_winnerId :: "objid option"
  body_duration :: "int option"
  body_notes :: "string option"

definition or_default :: "int option \<Rightarrow> int \<Rightarrow> int" where
  "or_default x d = (case x of None \<Rightarrow> d | Some v \<Rightarrow> if v = 0 then d else v)"

definition gameData :: "match \<Rightarrow> game_body \<Rightarrow> game" where
  "gameData m body =
     \<lparr> gameNumber = or_default (body_gameNumber body) (int (length (games m)) + 1),
       teamAScore = or_default (body_teamAScore body) 0,
       teamBScore = or_default (body_teamBScore body) 0,
       winner = body_winnerId body,
       game_duration = or_default (body_duration body) 0,
       game_notes = (case body_notes body of None \<Rightarrow> [] | Some n \<Rightarrow> n) \<rparr>"

definition MatchController_addGame ::
    "database \<Rightarrow> objid \<Rightarrow> game_body \<Rightarrow> date \<Rightarrow> response \<times> database" where
  "MatchController_addGame db i body now =
     (case Match_docs db i of
        None \<Rightarrow> (Response 404 ''Match not found'' None, db)
      | Some m \<Rightarrow>
          (case addGame m (gameData m body) now of
             Inr m' \<Rightarrow> (Response 200 ''Game added successfully'' (Some m'), store db i m')
           | Inl _ \<Rightarrow> (Response 500 ''Server error while adding game'' None, db)))"

section \<open>Sequences of operations\<close>

text \<open>
  The operations on one stored match, each with the time at which it runs. An operation
  whose save is rejected stores nothing, and the match stays as it was.
\<close>

datatype operation =
    SetResult string int int
  | Reschedule date
  | Start
  | Cancel "string option"
  | Postpone "string option"
  | AddGame game

fun perform :: "match \<Rightarrow> operation \<Rightarrow> date \<Rightarrow> save_error + match" where
  "perform m (SetResult res a b) now = setResult m res a b now"
| "perform m (Reschedule d) now = rescheduleNewDate m d"
| "perform m Start now = start m now"
| "perform m (Cancel r) now = cancel m r"
| "perform m (Postpone r) now = postpone m r"
| "perform m (AddGame g) now = addGame m g now"

fun stored_after :: "match \<Rightarrow> (operation \<times> date) list \<Rightarrow> match" where
  "stored_after m [] = m"
| "stored_after m ((op, now) # ops) =
     (case perform m op now of
        Inl _ \<Rightarrow> stored_after m ops
      | Inr m' \<Rightarrow> stored_after m' ops)"

text \<open>Games added one after the other; the first rejected save ends the run.\<close>

fun addGames :: "match \<Rightarrow> (game \<times> date) list \<Rightarrow> save_error + match" where
  "addGames m [] = Inr m"
| "addGames m ((g, now) # gs) =
     (case addGame m g now of
        Inl e \<Rightarrow> Inl e
      | Inr m' \<Rightarrow> addGames m' gs)"

text \<open>The two invariants of a stored match.\<close>

definition teams_distinct :: "match \<Rightarrow> bool" where
  "teams_distinct m \<longleftrightarrow> teamAId m \<noteq> teamBId m"

definition end_after_start :: "match \<Rightarrow> bool" where
  "end_after_start m \<longleftrightarrow>
     (case (startTime m, endTime m) of
        (Some s, Some e) \<Rightarrow> s < e
      | _ \<Rightarrow> True)"

section \<open>Sample documents\<close>

text \<open>
  A database with tournament 5 and its competitors 1 and 2, a create request for a
  best-of-3 match between them, the match it creates, the same match once started, and a
  game with a given winner.
\<close>

definition demo_db :: database where
  "demo_db = \<lparr> Tournament_docs = [5], Competitor_docs = [(1, 5), (2, 5)],
               Match_docs = Map.empty \<rparr>"

definition demo_body :: create_body where
  "demo_body = \<lparr> body_tournamentId = 5, body_teamAId = 1, body_teamBId = 2,
                 body_scheduleAt = Some 1000, body_round = Undefined, body_bracket = None,
                 body_bestOf = Number 3, body_refereeId = None \<rparr>"

definition demo_match :: match where
  "demo_match = new_Match 10 demo_body 1000 Winners"

definition demo_ongoing :: match where
  "demo_ongoing = demo_match\<lparr>status := Ongoing, startTime := Some 2000\<rparr>"

definition game_won_by :: "objid option \<Rightarrow> game" where
  "game_won_by w = \<lparr> gameNumber = 1, teamAScore = 0, teamBScore = 0, winner = w,
                      game_duration = 0, game_notes = [] \<rparr>"

text \<open>A best-of-1 match that competitor 1 has already won.\<close>

definition decided_match :: match where
  "decided_match = demo_ongoing\<lparr>bestOf := Some 1, games := [game_won_by (Some 1)],
                     winnerId := Some 1, status := Completed, endTime := Some 3000\<rparr>"

text \<open>The started match after a game for each side, and a best-of-5 after one game.\<close>

definition after_A_B :: match where
  "after_A_B = demo_ongoing\<lparr>games := [game_won_by (Some 1), game_won_by (Some 2)]\<rparr>"

definition best_of_5_after_A :: match where
  "best_of_5_after_A = demo_ongoing\<lparr>bestOf := Some 5, games := [game_won_by (Some 1)]\<rparr>"

text \<open>
  The match created by a request whose \<open>bestOf\<close> is \<open>null\<close>, a cancelled best-of-1 match,
  and an add-game request with an empty body.
\<close>

definition null_best_of_match :: match where
  "null_best_of_match = new_Match 10 (demo_body\<lparr>body_bestOf := Null\<rparr>) 1000 Winners"

definition cancelled_best_of_1 :: match where
  "cancelled_best_of_1 = demo_ongoing\<lparr>bestOf := Some 1, status := Cancelled\<rparr>"

definition empty_game_body :: game_body where
  "empty_game_body = \<lparr> body_gameNumber = None, body_teamAScore = None, body_teamBScore = None,
                        body_winnerId = None, body_duration = None, body_notes = None \<rparr>"

section \<open>Basic facts\<close>

lemma requiredWins_div:
  "requiredWins m = (case bestOf m of None \<Rightarrow> 0 | Some b \<Rightarrow> (b + 1) div 2)"
  unfolding requiredWins_def by (cases "bestOf m") (simp, simp, linarith)

lemma save_Inr: "save m = Inr m' \<longleftrightarrow>
    m' = m \<and> validators m \<and> teamAId m \<noteq> teamBId m \<and>
    (\<forall>e s. endTime m = Some e \<longrightarrow> startTime m = Some s \<longrightarrow> s < e)"
  by (auto simp: save_def pre_save_def split: option.splits)

lemma won_by_iff: "won_by team g \<longleftrightarrow> winner g = Some team"
  by (auto simp: won_by_def split: option.splits)

lemma won_by_eq: "won_by team = (\<lambda>g. winner g = Some team)"
  by (rule ext) (simp add: won_by_iff)


lemma validators_games [simp]: "validators (m\<lparr>games := gs\<rparr>) = validators m"
  by (simp add: validators_def)

lemma validators_status [simp]: "validators (m\<lparr>status := st\<rparr>) = validators m"
  by (simp add: validators_def)

lemma validators_outcome [simp]:
  "validators (m\<lparr>winnerId := w, status := st, endTime := e\<rparr>) = validators m"
  by (simp add: validators_def)

lemma addGame_cases:
  "addGame m g now = Inr m' \<Longrightarrow>
     games m' = games m @ [g] \<and>
     (if requiredWins m' \<le> teamAWins m'
        then winnerId m' = Some (teamAId m) \<and> status m' = Completed \<and> endTime m' = Some now
      else if requiredWins m' \<le> teamBWins m'
        then winnerId m' = Some (teamBId m) \<and> status m' = Completed \<and> endTime m' = Some now
      else winnerId m' = winnerId m \<and> status m' = status m \<and> endTime m' = endTime m)"
  by (auto simp: addGame_def Let_def save_Inr requiredWins_def teamAWins_def teamBWins_def
           split: if_splits)

lemma addGame_succeeds:
  "save m = Inr m \<Longrightarrow> (\<forall>s. startTime m = Some s \<longrightarrow> s < now) \<Longrightarrow>
     \<exists>m'. addGame m g now = Inr m'"
  by (auto simp: addGame_def Let_def save_Inr)

lemma addGame_fixed:
  "addGame m g now = Inr m' \<Longrightarrow>
     teamAId m' = teamAId m \<and> teamBId m' = teamBId m \<and> bestOf m' = bestOf m \<and>
     startTime m' = startTime m"
  by (auto simp: addGame_def Let_def save_Inr split: if_splits)

lemmas demo_defs =
  demo_db_def demo_body_def demo_match_def demo_ongoing_def game_won_by_def decided_match_def
  new_Match_def number_or_default_def

lemmas eval_defs =
  addGame_def setResult_def rescheduleNewDate_def start_def cancel_def postpone_def Let_def
  requiredWins_div teamAWins_def teamBWins_def won_by_def save_def pre_save_def validators_def
  demo_defs after_A_B_def best_of_5_after_A_def


lemma save_demo_ongoing: "save demo_ongoing = Inr demo_ongoing"
  by (simp add: save_Inr validators_def demo_defs)

lemma save_saved: "save m = Inr m' \<Longrightarrow> save m' = Inr m'"
  by (simp add: save_Inr)

lemma perform_saved: "perform m op now = Inr m' \<Longrightarrow> save m' = Inr m'"
  by (cases op)
     (auto simp: setResult_def rescheduleNewDate_def start_def cancel_def postpone_def
        addGame_def Let_def dest: save_saved split: if_splits)

lemma perform_teams:
  "perform m op now = Inr m' \<Longrightarrow> teamAId m' = teamAId m \<and> teamBId m' = teamBId m"
  by (cases op)
     (auto simp: setResult_def rescheduleNewDate_def start_def cancel_def postpone_def
        addGame_def Let_def save_Inr split: if_splits)

lemma saved_invariants: "save m = Inr m' \<Longrightarrow> teams_distinct m' \<and> end_after_start m'"
  by (auto simp: save_Inr teams_distinct_def end_after_start_def split: option.splits)

lemma stored_after_invariant:
  assumes step: "\<And>m op now m'. P m \<Longrightarrow> perform m op now = Inr m' \<Longrightarrow> P m'"
  shows "P m \<Longrightarrow> P (stored_after m ops)"
proof (induction ops arbitrary: m)
  case Nil
  then show ?case by simp
next
  case (Cons x ops)
  obtain op now where x: "x = (op, now)" by (cases x)
  show ?case
  proof (cases "perform m op now")
    case (Inl e)
    with x Cons show ?thesis by simp
  next
    case (Inr m')
    with Cons.prems have "P m'" by (rule step)
    with x Inr Cons.IH show ?thesis by simp
  qed
qed

lemma stored_after_distinct: "teams_distinct m \<Longrightarrow> teams_distinct (stored_after m ops)"
  by (rule stored_after_invariant) (auto dest: perform_saved saved_invariants)

lemma stored_after_timing: "end_after_start m \<Longrightarrow> end_after_start (stored_after m ops)"
  by (rule stored_after_invariant) (auto dest: perform_saved saved_invariants)

lemma filter_won_by_none: "\<forall>x\<in>set gs. winner x = None \<Longrightarrow> filter (won_by t) gs = []"
  by (simp add: won_by_iff filter_empty_conv)

lemma requiredWins_pos: "validators m \<Longrightarrow> bestOf m \<noteq> None \<Longrightarrow> 1 \<le> requiredWins m"
  by (auto simp: validators_def requiredWins_div)

lemma addGame_winnerless:
  assumes "save m = Inr m" and "\<forall>x\<in>set (games m). winner x = None" and "winner g = None"
    and "bestOf m \<noteq> None"
  shows "addGame m g now = Inr (m\<lparr>games := games m @ [g]\<rparr>)"
proof -
  let ?m1 = "m\<lparr>games := games m @ [g]\<rparr>"
  from assms(2,3) have none: "\<forall>x\<in>set (games ?m1). winner x = None" by simp
  have "teamAWins ?m1 = 0" and "teamBWins ?m1 = 0"
    unfolding teamAWins_def teamBWins_def using filter_won_by_none [OF none] by simp_all
  moreover from assms(1,4) have "1 \<le> requiredWins ?m1"
    by (intro requiredWins_pos) (simp_all add: save_Inr)
  moreover from assms(1) have "save ?m1 = Inr ?m1" by (simp add: save_Inr)
  ultimately show ?thesis by (simp add: addGame_def Let_def)
qed

lemma addGames_winnerless:
  "save m = Inr m \<Longrightarrow> bestOf m \<noteq> None \<Longrightarrow> \<forall>x\<in>set (games m). winner x = None \<Longrightarrow>
   \<forall>p\<in>set gs. winner (fst p) = None \<Longrightarrow>
   addGames m gs = Inr (m\<lparr>games := games m @ map fst gs\<rparr>)"
proof (induction gs arbitrary: m)
  case Nil
  then show ?case by simp
next
  case (Cons p gs)
  obtain g now where p: "p = (g, now)" by (cases p)
  let ?m1 = "m\<lparr>games := games m @ [g]\<rparr>"
  from Cons.prems p have step: "addGame m g now = Inr ?m1"
    by (intro addGame_winnerless) simp_all
  from Cons.prems(1) have "save ?m1 = Inr ?m1" by (simp add: save_Inr)
  moreover from Cons.prems have "bestOf ?m1 \<noteq> None" by simp
  moreover from Cons.prems p have "\<forall>x\<in>set (games ?m1). winner x = None" by simp
  moreover from Cons.prems have "\<forall>p\<in>set gs. winner (fst p) = None" by simp
  ultimately have "addGames ?m1 gs = Inr (?m1\<lparr>games := games ?m1 @ map fst gs\<rparr>)"
    by (rule Cons.IH)
  with step p show ?case by simp
qed

lemma new_Match_fields:
  "oid (new_Match n body sched br) = n"
  "tournamentId (new_Match n body sched br) = body_tournamentId body"
  "teamAId (new_Match n body sched br) = body_teamAId body"
  "teamBId (new_Match n body sched br) = body_teamBId body"
  "scheduleAt (new_Match n body sched br) = sched"
  "status (new_Match n body sched br) = Scheduled"
  "games (new_Match n body sched br) = []"
  "winnerId (new_Match n body sched br) = None"
  "startTime (new_Match n body sched br) = None"
  "endTime (new_Match n body sched br) = None"
  by (simp_all add: new_Match_def)

lemma save_new_Match:
  "save (new_Match n body sched br) =
     (if (case body_round body of Number r \<Rightarrow> 1 \<le> r | _ \<Rightarrow> True) \<and>
         (case body_bestOf body of Number b \<Rightarrow> 1 \<le> b | _ \<Rightarrow> True)
      then if body_teamAId body = body_teamBId body
           then Inl (Error ''Team A and Team B cannot be the same'')
           else Inr (new_Match n body sched br)
      else Inl ValidationError)"
  by (simp add: save_def pre_save_def validators_def new_Match_def number_or_default_def
        split: body_number.splits)

lemmas lookup_defs = Tournament_findById_def Competitor_findOne_def bracket_enum_def

lemmas eval2_defs = eval_defs null_best_of_match_def cancelled_best_of_1_def empty_game_body_def
  lookup_defs createMatch_def MatchController_addGame_def gameData_def or_default_def store_def

text \<open>
  The two runs of games of the specification: best of 3 with winners A, B, A, and best of
  5 with winners A, A.
\<close>

lemma best_of_3_A_B_A:
  "addGames demo_ongoing
     [(game_won_by (Some 1), 3000), (game_won_by (Some 2), 4000), (game_won_by (Some 1), 5000)] =
   Inr (demo_ongoing\<lparr>games := [game_won_by (Some 1), game_won_by (Some 2), game_won_by (Some 1)],
          winnerId := Some 1, status := Completed, endTime := Some 5000\<rparr>)"
  by (simp add: eval_defs)

lemma best_of_5_A_A:
  "addGames (demo_ongoing\<lparr>bestOf := Some 5\<rparr>)
     [(game_won_by (Some 1), 3000), (game_won_by (Some 1), 4000)] =
   Inr (demo_ongoing\<lparr>bestOf := Some 5,
          games := [game_won_by (Some 1), game_won_by (Some 1)]\<rparr>)"
  by (simp add: eval_defs)

text \<open>
  A saved match has distinct competitors, no operation changes the competitors of a match,
  and the stored match keeps distinct competitors through any sequence of operations.
\<close>

lemma teams_distinct_preserved:
  "(save m = Inr m' \<longrightarrow> teams_distinct m') \<and>
   (perform m op now = Inr m' \<longrightarrow> teamAId m' = teamAId m \<and> teamBId m' = teamBId m) \<and>
   (teams_distinct m \<longrightarrow> teams_distinct (stored_after m ops))"
  by (simp add: saved_invariants stored_after_distinct perform_teams)

section \<open>Best-of-N resolution\<close>

text \<open>
  Claim C1. When \<open>addGame\<close> is saved, the game is the last of the games, the
  required wins are \<open>ceil(bestOf / 2)\<close> (0 for a \<open>bestOf\<close> of \<open>null\<close>), and the wins of each team are counted over the
  whole sequence with the new game. The count of team A is tested first: if it reaches the
  required wins, team A is the winner, the status is completed and the end time is the
  current time; otherwise, if the count of team B reaches them, team B is the winner in
  the same way; otherwise winner, status and end time are as before. The save goes through
  for a stored match whose start time, if any, is before the current time. With
  \<open>bestOf = 3\<close> and winners A, B, A the match is completed with winner A; with
  \<open>bestOf = 5\<close> and winners A, A it stays ongoing.
\<close>

theorem addGame_best_of_n:
  "(\<forall>m'. addGame m g now = Inr m' \<longrightarrow>
      games m' = games m @ [g] \<and>
      requiredWins m' =
        (case bestOf m of None \<Rightarrow> 0 | Some b \<Rightarrow> \<lceil>real_of_int b / 2\<rceil>) \<and>
      teamAWins m' = int (length (filter (\<lambda>x. winner x = Some (teamAId m)) (games m @ [g]))) \<and>
      teamBWins m' = int (length (filter (\<lambda>x. winner x = Some (teamBId m)) (games m @ [g]))) \<and>
      (if requiredWins m' \<le> teamAWins m'
         then winnerId m' = Some (teamAId m) \<and> status m' = Completed \<and> endTime m' = Some now
       else if requiredWins m' \<le> teamBWins m'
         then winnerId m' = Some (teamBId m) \<and> status m' = Completed \<and> endTime m' = Some now
       else winnerId m' = winnerId m \<and> status m' = status m \<and> endTime m' = endTime m)) \<and>
   (save m = Inr m \<and> (\<forall>s. startTime m = Some s \<longrightarrow> s < now) \<longrightarrow>
      (\<exists>m'. addGame m g now = Inr m'))"
proof (intro conjI allI impI)
  fix m' assume a: "addGame m g now = Inr m'"
  from addGame_cases [OF a] show "games m' = games m @ [g]" by simp
  from addGame_fixed [OF a]
  show "requiredWins m' = (case bestOf m of None \<Rightarrow> 0 | Some b \<Rightarrow> \<lceil>real_of_int b / 2\<rceil>)"
    by (simp add: requiredWins_def)
  from addGame_cases [OF a] addGame_fixed [OF a]
  show "teamAWins m' = int (length (filter (\<lambda>x. winner x = Some (teamAId m)) (games m @ [g])))"
    by (simp add: teamAWins_def won_by_eq)
  from addGame_cases [OF a] addGame_fixed [OF a]
  show "teamBWins m' = int (length (filter (\<lambda>x. winner x = Some (teamBId m)) (games m @ [g])))"
    by (simp add: teamBWins_def won_by_eq)
  from addGame_cases [OF a]
  show "if requiredWins m' \<le> teamAWins m'
         then winnerId m' = Some (teamAId m) \<and> status m' = Completed \<and> endTime m' = Some now
       else if requiredWins m' \<le> teamBWins m'
         then winnerId m' = Some (teamBId m) \<and> status m' = Completed \<and> endTime m' = Some now
       else winnerId m' = winnerId m \<and> status m' = status m \<and> endTime m' = endTime m"
    by simp
next
  assume "save m = Inr m \<and> (\<forall>s. startTime m = Some s \<longrightarrow> s < now)"
  then show "\<exists>m'. addGame m g now = Inr m'" using addGame_succeeds by blast
qed

theorem addGame_best_of_n_witness:
  "save after_A_B = Inr after_A_B \<and>
   (\<exists>m'. addGame after_A_B (game_won_by (Some 1)) 5000 = Inr m' \<and>
         status m' = Completed \<and> winnerId m' = Some 1 \<and> endTime m' = Some 5000) \<and>
   save best_of_5_after_A = Inr best_of_5_after_A \<and>
   status best_of_5_after_A = Ongoing \<and> winnerId best_of_5_after_A = None \<and>
   (\<exists>m'. addGame best_of_5_after_A (game_won_by (Some 1)) 5000 = Inr m' \<and>
         status m' = Ongoing \<and> winnerId m' = None)"
proof -
  have s1: "save after_A_B = Inr after_A_B"
    by (simp add: eval_defs)
  have s2: "save best_of_5_after_A = Inr best_of_5_after_A"
    by (simp add: eval_defs)
  have t1: "\<forall>s. startTime after_A_B = Some s \<longrightarrow> s < 5000"
    by (simp add: eval_defs)
  have t2: "\<forall>s. startTime best_of_5_after_A = Some s \<longrightarrow> s < 5000"
    by (simp add: eval_defs)
  have before: "status best_of_5_after_A = Ongoing \<and> winnerId best_of_5_after_A = None"
    by (simp add: eval_defs)
  note A = addGame_best_of_n [of after_A_B "game_won_by (Some 1)" 5000]
  note B = addGame_best_of_n [of best_of_5_after_A "game_won_by (Some 1)" 5000]
  from A s1 t1 obtain m1 where m1: "addGame after_A_B (game_won_by (Some 1)) 5000 = Inr m1"
    by blast
  from B s2 t2 obtain m2 where m2: "addGame best_of_5_after_A (game_won_by (Some 1)) 5000 = Inr m2"
    by blast
  from A m1 have "requiredWins m1 = 2" and "teamAWins m1 = 2"
    by (simp_all add: demo_defs after_A_B_def)
  with A m1 have r1: "status m1 = Completed \<and> winnerId m1 = Some 1 \<and> endTime m1 = Some 5000"
    by (simp add: demo_defs after_A_B_def)
  from B m2 have "requiredWins m2 = 3" and "teamAWins m2 = 2" and "teamBWins m2 = 0"
    by (simp_all add: demo_defs best_of_5_after_A_def)
  with B m2 before have r2: "status m2 = Ongoing \<and> winnerId m2 = None"
    by simp
  from s1 s2 m1 m2 r1 r2 before show ?thesis by blast
qed

text \<open>
  Both counts can be at the required wins, since a game can be added to a match that is
  decided; team A is then the winner. In a best-of-1 match that competitor 1 (team A) has
  won, a further game won by competitor 2 (team B) is saved: the count of team B is 1, the
  required wins, and the winner is competitor 1.
\<close>

lemma addGame_both_reach:
  "addGame decided_match (game_won_by (Some 2)) 4000 =
     Inr (decided_match\<lparr>games := [game_won_by (Some 1), game_won_by (Some 2)],
                        endTime := Some 4000\<rparr>) \<and>
   requiredWins decided_match = 1 \<and>
   teamBWins (decided_match\<lparr>games := [game_won_by (Some 1), game_won_by (Some 2)]\<rparr>) = 1 \<and>
   teamBId decided_match = 2 \<and>
   winnerId (decided_match\<lparr>games := [game_won_by (Some 1), game_won_by (Some 2)],
                        endTime := Some 4000\<rparr>) = Some 1"
  by (simp add: eval_defs)

section \<open>Winner by score\<close>

text \<open>
  Claim C2, as amended. When \<open>setResult\<close> is saved, the match holds the result text and both scores,
  its winner is team A when score A is greater and team B when score B is greater, the
  winner is not assigned when the scores are equal and stays as it was (a match that had
  no winner has none), the status is completed, and the end time is the current time, which is after the
  start time when there is one. The save goes through for a stored match, a result of at
  most 200 characters, scores that are not negative and a current time after the start
  time.
\<close>

theorem setResult_outcome:
  "(\<forall>m'. setResult m res a b now = Inr m' \<longrightarrow>
      result m' = res \<and> score_teamA m' = a \<and> score_teamB m' = b \<and>
      (b < a \<longrightarrow> winnerId m' = Some (teamAId m)) \<and>
      (a < b \<longrightarrow> winnerId m' = Some (teamBId m)) \<and>
      (a = b \<longrightarrow> winnerId m' = winnerId m) \<and>
      status m' = Completed \<and> endTime m' = Some now \<and>
      (\<forall>s. startTime m' = Some s \<longrightarrow> s < now)) \<and>
   (save m = Inr m \<and> length res \<le> 200 \<and> 0 \<le> a \<and> 0 \<le> b \<and>
    (\<forall>s. startTime m = Some s \<longrightarrow> s < now) \<longrightarrow>
      (\<exists>m'. setResult m res a b now = Inr m'))"
  by (auto simp: setResult_def Let_def save_Inr validators_def)

theorem setResult_outcome_witness:
  "save demo_ongoing = Inr demo_ongoing \<and> startTime demo_ongoing = Some 2000 \<and>
   winnerId demo_ongoing = None \<and>
   (\<exists>m'. setResult demo_ongoing [] 3 1 3000 = Inr m' \<and> winnerId m' = Some 1 \<and>
         status m' = Completed \<and> endTime m' = Some 3000 \<and> startTime m' = Some 2000) \<and>
   (\<exists>m'. setResult demo_ongoing [] 2 2 3000 = Inr m' \<and> winnerId m' = None \<and>
         status m' = Completed)"
proof -
  have pre: "save demo_ongoing = Inr demo_ongoing \<and> length ([] :: string) \<le> 200 \<and>
      (\<forall>s. startTime demo_ongoing = Some s \<longrightarrow> s < 3000)"
    by (simp add: save_demo_ongoing) (simp add: demo_defs)
  have facts: "startTime demo_ongoing = Some 2000 \<and> winnerId demo_ongoing = None \<and>
      teamAId demo_ongoing = 1"
    by (simp add: demo_defs)
  note A = setResult_outcome [of demo_ongoing "[]" 3 1 3000]
  note B = setResult_outcome [of demo_ongoing "[]" 2 2 3000]
  from A pre obtain m1 where m1: "setResult demo_ongoing [] 3 1 3000 = Inr m1"
    by auto
  from B pre obtain m2 where m2: "setResult demo_ongoing [] 2 2 3000 = Inr m2"
    by auto
  from A m1 facts have r1: "winnerId m1 = Some 1 \<and> status m1 = Completed \<and>
      endTime m1 = Some 3000"
    by simp
  from m1 facts have r1': "startTime m1 = Some 2000"
    by (auto simp: setResult_def Let_def save_Inr)
  from B m2 facts have r2: "winnerId m2 = None \<and> status m2 = Completed"
    by simp
  from pre facts m1 m2 r1 r1' r2 show ?thesis by blast
qed

text \<open>
  Claim C2 as first stated leaves the winner unset on equal scores for every match. The
  best-of-1 match that competitor 1 has won has a winner; a result of 2 to 2 recorded on it
  is saved and the winner is still competitor 1.
\<close>

theorem setResult_tie_keeps_winner_counterexample:
  "winnerId decided_match = Some 1 \<and>
   setResult decided_match [] 2 2 5000 =
     Inr (decided_match\<lparr>score_teamA := 2, score_teamB := 2, endTime := Some 5000\<rparr>) \<and>
   winnerId (decided_match\<lparr>score_teamA := 2, score_teamB := 2, endTime := Some 5000\<rparr>) = Some 1"
  by (simp add: eval_defs)

section \<open>Starting a match\<close>



section \<open>Rescheduling\<close>

text \<open>
  Claim C5. When \<open>rescheduleNewDate\<close> is saved, the scheduled time is the new date and the
  status is scheduled. For a stored match the save goes through whatever the status of the
  match is, completed included.
\<close>

theorem rescheduleNewDate_any_status:
  "(\<forall>m'. rescheduleNewDate m newDate = Inr m' \<longrightarrow>
       scheduleAt m' = newDate \<and> status m' = Scheduled) \<and>
   (save m = Inr m \<longrightarrow>
      (\<exists>m'. rescheduleNewDate (m\<lparr>status := st\<rparr>) newDate = Inr m' \<and>
            scheduleAt m' = newDate \<and> status m' = Scheduled))"
  by (auto simp: rescheduleNewDate_def save_Inr validators_def)

theorem rescheduleNewDate_any_status_witness:
  "save decided_match = Inr decided_match \<and> status decided_match = Completed \<and>
   (\<exists>m'. rescheduleNewDate decided_match 9000 = Inr m' \<and>
         scheduleAt m' = 9000 \<and> status m' = Scheduled)"
proof -
  have s: "save decided_match = Inr decided_match"
    by (simp add: eval_defs)
  have c: "status decided_match = Completed" "decided_match\<lparr>status := Completed\<rparr> = decided_match"
    by (simp_all add: demo_defs)
  from rescheduleNewDate_any_status [of decided_match 9000 Completed] s c
  show ?thesis by simp
qed

section \<open>Cancelling and postponing\<close>

text \<open>
  Claim C6. For a stored match in any status, \<open>cancel\<close> with a reason of at most 1000
  characters gives the status cancelled and \<open>postpone\<close> the status postponed, with the
  reason as the notes of the match. When the reason is left out the notes are the empty
  string, and through the controller they are "No reason provided".
\<close>

theorem cancel_postpone_any_status:
  "(save m = Inr m \<and> length r \<le> 1000 \<longrightarrow>
      (\<exists>m'. cancel (m\<lparr>status := st\<rparr>) (Some r) = Inr m' \<and>
            status m' = Cancelled \<and> match_notes m' = Some r) \<and>
      (\<exists>m'. postpone (m\<lparr>status := st\<rparr>) (Some r) = Inr m' \<and>
            status m' = Postponed \<and> match_notes m' = Some r)) \<and>
   (save m = Inr m \<longrightarrow>
      (\<exists>m'. cancel (m\<lparr>status := st\<rparr>) None = Inr m' \<and>
            status m' = Cancelled \<and> match_notes m' = Some []) \<and>
      (\<exists>m'. postpone (m\<lparr>status := st\<rparr>) None = Inr m' \<and>
            status m' = Postponed \<and> match_notes m' = Some [])) \<and>
   (save m = Inr m \<and> Match_docs db i = Some (m\<lparr>status := st\<rparr>) \<longrightarrow>
      cancelMatch db i None =
        (Response 200 ''Match cancelled successfully''
           (Some (m\<lparr>status := Cancelled, match_notes := Some ''No reason provided''\<rparr>)),
         store db i (m\<lparr>status := Cancelled, match_notes := Some ''No reason provided''\<rparr>)) \<and>
      postponeMatch db i None =
        (Response 200 ''Match postponed successfully''
           (Some (m\<lparr>status := Postponed, match_notes := Some ''No reason provided''\<rparr>)),
         store db i (m\<lparr>status := Postponed, match_notes := Some ''No reason provided''\<rparr>)))"
proof (intro conjI impI)
  assume "save m = Inr m \<and> length r \<le> 1000"
  then show "\<exists>m'. cancel (m\<lparr>status := st\<rparr>) (Some r) = Inr m' \<and>
            status m' = Cancelled \<and> match_notes m' = Some r"
    and "\<exists>m'. postpone (m\<lparr>status := st\<rparr>) (Some r) = Inr m' \<and>
            status m' = Postponed \<and> match_notes m' = Some r"
    by (auto simp: cancel_def postpone_def save_Inr validators_def)
next
  assume "save m = Inr m"
  then show "\<exists>m'. cancel (m\<lparr>status := st\<rparr>) None = Inr m' \<and>
            status m' = Cancelled \<and> match_notes m' = Some []"
    and "\<exists>m'. postpone (m\<lparr>status := st\<rparr>) None = Inr m' \<and>
            status m' = Postponed \<and> match_notes m' = Some []"
    by (auto simp: cancel_def postpone_def save_Inr validators_def)
next
  assume a: "save m = Inr m \<and> Match_docs db i = Some (m\<lparr>status := st\<rparr>)"
  then have "save (m\<lparr>status := Cancelled, match_notes := Some ''No reason provided''\<rparr>) =
      Inr (m\<lparr>status := Cancelled, match_notes := Some ''No reason provided''\<rparr>)"
    by (simp add: save_Inr validators_def)
  with a show "cancelMatch db i None =
        (Response 200 ''Match cancelled successfully''
           (Some (m\<lparr>status := Cancelled, match_notes := Some ''No reason provided''\<rparr>)),
         store db i (m\<lparr>status := Cancelled, match_notes := Some ''No reason provided''\<rparr>))"
    by (simp add: cancelMatch_def cancel_def reason_or_default_def)
  from a have "save (m\<lparr>status := Postponed, match_notes := Some ''No reason provided''\<rparr>) =
      Inr (m\<lparr>status := Postponed, match_notes := Some ''No reason provided''\<rparr>)"
    by (simp add: save_Inr validators_def)
  with a show "postponeMatch db i None =
        (Response 200 ''Match postponed successfully''
           (Some (m\<lparr>status := Postponed, match_notes := Some ''No reason provided''\<rparr>)),
         store db i (m\<lparr>status := Postponed, match_notes := Some ''No reason provided''\<rparr>))"
    by (simp add: postponeMatch_def postpone_def reason_or_default_def)
qed

theorem cancel_postpone_any_status_witness:
  "save decided_match = Inr decided_match \<and> status decided_match = Completed \<and>
   (\<exists>m'. cancel decided_match (Some ''rain'') = Inr m' \<and>
         status m' = Cancelled \<and> match_notes m' = Some ''rain'') \<and>
   (\<exists>m'. postpone decided_match (Some ''rain'') = Inr m' \<and>
         status m' = Postponed \<and> match_notes m' = Some ''rain'') \<and>
   (\<exists>m'. cancel decided_match None = Inr m' \<and>
         status m' = Cancelled \<and> match_notes m' = Some [])"
proof -
  have s: "save decided_match = Inr decided_match"
    by (simp add: eval_defs)
  have c: "status decided_match = Completed" "decided_match\<lparr>status := Completed\<rparr> = decided_match"
    by (simp_all add: demo_defs)
  have l: "length ''rain'' \<le> 1000" by simp
  from cancel_postpone_any_status [of decided_match "''rain''" Completed] s c l
  show ?thesis by simp
qed

section \<open>Scheduling a match\<close>

text \<open>
  Claim C7, as amended. \<open>createMatch\<close> answers 404, "Tournament not found" (the not-found
  error), when the tournament is not stored, and 400, "One or both competitors not found in
  this tournament" (a validation error), when the tournament is stored and one of the
  competitors is not registered in it. It answers 201 only when the tournament and both
  competitors are found and the two competitors differ, and then the new match is stored
  under the new id, scheduled, and returned; in every other case the database is as it
  was. It does answer 201 when the lookups succeed, the competitors differ, the date and
  the bracket are valid and round and best-of, when they are numbers, are at least 1.
\<close>

theorem createMatch_outcomes:
  "(\<not> Tournament_findById db (body_tournamentId body) \<longrightarrow>
      createMatch db body n = (Response 404 ''Tournament not found'' None, db)) \<and>
   (Tournament_findById db (body_tournamentId body) \<and>
    (\<not> Competitor_findOne db (body_teamAId body) (body_tournamentId body) \<or>
     \<not> Competitor_findOne db (body_teamBId body) (body_tournamentId body)) \<longrightarrow>
      createMatch db body n =
        (Response 400 ''One or both competitors not found in this tournament'' None, db)) \<and>
   (code (fst (createMatch db body n)) = 201 \<longrightarrow>
      Tournament_findById db (body_tournamentId body) \<and>
      Competitor_findOne db (body_teamAId body) (body_tournamentId body) \<and>
      Competitor_findOne db (body_teamBId body) (body_tournamentId body) \<and>
      body_teamAId body \<noteq> body_teamBId body \<and>
      (\<exists>m. createMatch db body n =
              (Response 201 ''Match created successfully'' (Some m), store db n m) \<and>
           save m = Inr m \<and> oid m = n \<and> tournamentId m = body_tournamentId body \<and>
           teamAId m = body_teamAId body \<and> teamBId m = body_teamBId body \<and>
           status m = Scheduled)) \<and>
   (code (fst (createMatch db body n)) \<noteq> 201 \<longrightarrow> snd (createMatch db body n) = db) \<and>
   (Tournament_findById db (body_tournamentId body) \<and>
    Competitor_findOne db (body_teamAId body) (body_tournamentId body) \<and>
    Competitor_findOne db (body_teamBId body) (body_tournamentId body) \<and>
    body_teamAId body \<noteq> body_teamBId body \<and>
    body_scheduleAt body \<noteq> None \<and>
    bracket_enum (case body_bracket body of None \<Rightarrow> ''winners'' | Some s \<Rightarrow> s) \<noteq> None \<and>
    (case body_round body of Number r \<Rightarrow> 1 \<le> r | _ \<Rightarrow> True) \<and>
    (case body_bestOf body of Number b \<Rightarrow> 1 \<le> b | _ \<Rightarrow> True) \<longrightarrow>
      code (fst (createMatch db body n)) = 201)"
proof (intro conjI impI)
  assume "\<not> Tournament_findById db (body_tournamentId body)"
  then show "createMatch db body n = (Response 404 ''Tournament not found'' None, db)"
    by (simp add: createMatch_def)
next
  assume "Tournament_findById db (body_tournamentId body) \<and>
    (\<not> Competitor_findOne db (body_teamAId body) (body_tournamentId body) \<or>
     \<not> Competitor_findOne db (body_teamBId body) (body_tournamentId body))"
  then show "createMatch db body n =
        (Response 400 ''One or both competitors not found in this tournament'' None, db)"
    by (auto simp: createMatch_def)
next
  assume ok: "code (fst (createMatch db body n)) = 201"
  then show "Tournament_findById db (body_tournamentId body)"
    and "Competitor_findOne db (body_teamAId body) (body_tournamentId body)"
    and "Competitor_findOne db (body_teamBId body) (body_tournamentId body)"
    by (auto simp: createMatch_def split: if_splits)
  from ok show "body_teamAId body \<noteq> body_teamBId body"
    by (auto simp: createMatch_def save_new_Match
          split: if_splits option.splits sum.splits save_error.splits)
  from ok obtain sched br where sb: "body_scheduleAt body = Some sched"
      "bracket_enum (case body_bracket body of None \<Rightarrow> ''winners'' | Some s \<Rightarrow> s) = Some br"
      "save (new_Match n body sched br) = Inr (new_Match n body sched br)"
    by (auto simp: createMatch_def save_new_Match
          split: if_splits option.splits sum.splits save_error.splits)
  with ok have "createMatch db body n =
      (Response 201 ''Match created successfully'' (Some (new_Match n body sched br)),
       store db n (new_Match n body sched br))"
    by (auto simp: createMatch_def new_Match_fields split: if_splits)
  with sb(3) show "\<exists>m. createMatch db body n =
              (Response 201 ''Match created successfully'' (Some m), store db n m) \<and>
           save m = Inr m \<and> oid m = n \<and> tournamentId m = body_tournamentId body \<and>
           teamAId m = body_teamAId body \<and> teamBId m = body_teamBId body \<and>
           status m = Scheduled"
    by (auto simp: new_Match_fields)
next
  assume "code (fst (createMatch db body n)) \<noteq> 201"
  then show "snd (createMatch db body n) = db"
    by (auto simp: createMatch_def split: if_splits option.splits sum.splits save_error.splits)
next
  assume "Tournament_findById db (body_tournamentId body) \<and>
    Competitor_findOne db (body_teamAId body) (body_tournamentId body) \<and>
    Competitor_findOne db (body_teamBId body) (body_tournamentId body) \<and>
    body_teamAId body \<noteq> body_teamBId body \<and>
    body_scheduleAt body \<noteq> None \<and>
    bracket_enum (case body_bracket body of None \<Rightarrow> ''winners'' | Some s \<Rightarrow> s) \<noteq> None \<and>
    (case body_round body of Number r \<Rightarrow> 1 \<le> r | _ \<Rightarrow> True) \<and>
    (case body_bestOf body of Number b \<Rightarrow> 1 \<le> b | _ \<Rightarrow> True)"
  then show "code (fst (createMatch db body n)) = 201"
    by (auto simp: createMatch_def save_new_Match)
qed

theorem createMatch_outcomes_witness:
  "createMatch demo_db demo_body 10 =
     (Response 201 ''Match created successfully'' (Some demo_match), store demo_db 10 demo_match) \<and>
   code (fst (createMatch demo_db demo_body 10)) = 201 \<and>
   body_teamAId demo_body \<noteq> body_teamBId demo_body \<and>
   \<not> Tournament_findById demo_db 6 \<and>
   createMatch demo_db (demo_body\<lparr>body_tournamentId := 6\<rparr>) 10 =
     (Response 404 ''Tournament not found'' None, demo_db) \<and>
   \<not> Competitor_findOne demo_db 3 5 \<and>
   createMatch demo_db (demo_body\<lparr>body_teamBId := 3\<rparr>) 10 =
     (Response 400 ''One or both competitors not found in this tournament'' None, demo_db)"
proof -
  have h1: "Tournament_findById demo_db (body_tournamentId demo_body) \<and>
    Competitor_findOne demo_db (body_teamAId demo_body) (body_tournamentId demo_body) \<and>
    Competitor_findOne demo_db (body_teamBId demo_body) (body_tournamentId demo_body) \<and>
    body_teamAId demo_body \<noteq> body_teamBId demo_body \<and>
    body_scheduleAt demo_body \<noteq> None \<and>
    bracket_enum (case body_bracket demo_body of None \<Rightarrow> ''winners'' | Some s \<Rightarrow> s) \<noteq> None \<and>
    (case body_round demo_body of Number r \<Rightarrow> 1 \<le> r | _ \<Rightarrow> True) \<and>
    (case body_bestOf demo_body of Number b \<Rightarrow> 1 \<le> b | _ \<Rightarrow> True)"
    by (simp add: lookup_defs demo_db_def demo_body_def)
  with createMatch_outcomes [of demo_db demo_body 10]
  have r1: "code (fst (createMatch demo_db demo_body 10)) = 201"
    by blast
  have e1: "createMatch demo_db demo_body 10 =
     (Response 201 ''Match created successfully'' (Some demo_match), store demo_db 10 demo_match)"
    by (simp add: createMatch_def lookup_defs save_def pre_save_def validators_def demo_defs)
  have h2: "\<not> Tournament_findById demo_db (body_tournamentId (demo_body\<lparr>body_tournamentId := 6\<rparr>))"
    by (simp add: lookup_defs demo_db_def)
  with createMatch_outcomes [of demo_db "demo_body\<lparr>body_tournamentId := 6\<rparr>" 10]
  have r2: "createMatch demo_db (demo_body\<lparr>body_tournamentId := 6\<rparr>) 10 =
     (Response 404 ''Tournament not found'' None, demo_db)"
    by blast
  have h3: "Tournament_findById demo_db (body_tournamentId (demo_body\<lparr>body_teamBId := 3\<rparr>)) \<and>
     \<not> Competitor_findOne demo_db (body_teamBId (demo_body\<lparr>body_teamBId := 3\<rparr>))
         (body_tournamentId (demo_body\<lparr>body_teamBId := 3\<rparr>))"
    by (simp add: lookup_defs demo_db_def demo_body_def)
  with createMatch_outcomes [of demo_db "demo_body\<lparr>body_teamBId := 3\<rparr>" 10]
  have r3: "createMatch demo_db (demo_body\<lparr>body_teamBId := 3\<rparr>) 10 =
     (Response 400 ''One or both competitors not found in this tournament'' None, demo_db)"
    by blast
  from h1 h2 h3 have side: "body_teamAId demo_body \<noteq> body_teamBId demo_body \<and>
      \<not> Tournament_findById demo_db 6 \<and> \<not> Competitor_findOne demo_db 3 5"
    by (simp add: demo_body_def)
  from e1 r1 r2 r3 side show ?thesis by blast
qed

text \<open>
  Claim C7 as first stated gives a validation error for a tournament that does not exist
  and a not-found error for a competitor whose lookup returns nothing. For tournament 6,
  which is not stored, the answer is the 404; for competitor 3, which is not registered in
  tournament 5, the answer is the 400.
\<close>

theorem createMatch_error_kinds_counterexample:
  "createMatch demo_db (demo_body\<lparr>body_tournamentId := 6\<rparr>) 10 =
     (Response 404 ''Tournament not found'' None, demo_db) \<and>
   createMatch demo_db (demo_body\<lparr>body_teamBId := 3\<rparr>) 10 =
     (Response 400 ''One or both competitors not found in this tournament'' None, demo_db)"
  by (simp add: createMatch_def lookup_defs demo_db_def demo_body_def)

section \<open>Distinct competitors\<close>

text \<open>
  Claim C4. A create request with competitor 1 on both sides, registered in the stored
  tournament 5, is rejected by the \<open>pre('save')\<close> hook with a plain \<open>Error\<close>; the \<open>catch\<close>
  of \<open>createMatch\<close> answers 400, "Validation failed", only to an error named
  \<open>ValidationError\<close> (as for a best-of of 0), so this request is answered 500, "Server
  error while creating match". Nothing is stored, and stored matches keep distinct
  competitors (\<open>teams_distinct_preserved\<close>).
\<close>

theorem createMatch_same_team_server_error:
  "createMatch demo_db (demo_body\<lparr>body_teamBId := 1\<rparr>) 10 =
     (Response 500 ''Server error while creating match'' None, demo_db) \<and>
   createMatch demo_db (demo_body\<lparr>body_bestOf := Number 0\<rparr>) 10 =
     (Response 400 ''Validation failed'' None, demo_db)"
  by (simp add: createMatch_def lookup_defs save_def pre_save_def validators_def demo_defs)

theorem createMatch_same_team_server_error_witness:
  "Tournament_findById demo_db 5 \<and> Competitor_findOne demo_db 1 5 \<and>
   code (fst (createMatch demo_db (demo_body\<lparr>body_teamBId := 1\<rparr>) 10)) = 500 \<and>
   snd (createMatch demo_db (demo_body\<lparr>body_teamBId := 1\<rparr>) 10) = demo_db \<and>
   code (fst (createMatch demo_db (demo_body\<lparr>body_bestOf := Number 0\<rparr>) 10)) = 400"
proof -
  have "Tournament_findById demo_db 5 \<and> Competitor_findOne demo_db 1 5"
    by (simp add: lookup_defs demo_db_def)
  with createMatch_same_team_server_error show ?thesis by simp
qed

section \<open>End time after start time\<close>

text \<open>
  Claim C8. A match whose end time is not after its start time is rejected by \<open>save\<close>;
  a match that \<open>save\<close> or any operation returns has its end time after its start time
  when both are set; and so has the stored match after any sequence of operations on a
  match that had it.
\<close>

theorem end_after_start_invariant:
  "(\<forall>s e. startTime m = Some s \<and> endTime m = Some e \<and> e \<le> s \<longrightarrow> (\<exists>err. save m = Inl err)) \<and>
   (\<forall>m'. save m = Inr m' \<longrightarrow> end_after_start m') \<and>
   (\<forall>op now m'. perform m op now = Inr m' \<longrightarrow> end_after_start m') \<and>
   (end_after_start m \<longrightarrow> end_after_start (stored_after m ops))"
proof (intro conjI allI impI)
  fix s e assume "startTime m = Some s \<and> endTime m = Some e \<and> e \<le> s"
  then show "\<exists>err. save m = Inl err"
    by (auto simp: save_def pre_save_def)
next
  fix m' assume "save m = Inr m'"
  then show "end_after_start m'" by (simp add: saved_invariants)
next
  fix op now m' assume "perform m op now = Inr m'"
  then show "end_after_start m'" by (auto dest: perform_saved saved_invariants)
next
  assume "end_after_start m"
  then show "end_after_start (stored_after m ops)" by (rule stored_after_timing)
qed

theorem end_after_start_invariant_witness:
  "(\<exists>err. save (demo_ongoing\<lparr>endTime := Some 2000\<rparr>) = Inl err) \<and>
   end_after_start demo_match \<and>
   stored_after demo_match [(Start, 2000), (SetResult [] 3 1, 1500), (SetResult [] 3 1, 3000)] =
     demo_match\<lparr>score_teamA := 3, score_teamB := 1, status := Completed,
                 startTime := Some 2000, endTime := Some 3000, winnerId := Some 1\<rparr> \<and>
   end_after_start
     (stored_after demo_match
        [(Start, 2000), (SetResult [] 3 1, 1500), (SetResult [] 3 1, 3000)])"
proof -
  have h1: "startTime (demo_ongoing\<lparr>endTime := Some 2000\<rparr>) = Some 2000 \<and>
      endTime (demo_ongoing\<lparr>endTime := Some 2000\<rparr>) = Some 2000 \<and> (2000::int) \<le> 2000"
    by (simp add: demo_defs)
  have h2: "end_after_start demo_match"
    by (simp add: end_after_start_def demo_defs)
  have run: "stored_after demo_match
        [(Start, 2000), (SetResult [] 3 1, 1500), (SetResult [] 3 1, 3000)] =
     demo_match\<lparr>score_teamA := 3, score_teamB := 1, status := Completed,
                 startTime := Some 2000, endTime := Some 3000, winnerId := Some 1\<rparr>"
    by (simp add: eval_defs)
  from end_after_start_invariant [of "demo_ongoing\<lparr>endTime := Some 2000\<rparr>"] h1
  have r1: "\<exists>err. save (demo_ongoing\<lparr>endTime := Some 2000\<rparr>) = Inl err"
    by blast
  from end_after_start_invariant [of demo_match
      "[(Start, 2000), (SetResult [] 3 1, 1500), (SetResult [] 3 1, 3000)]"] h2
  have r2: "end_after_start (stored_after demo_match
        [(Start, 2000), (SetResult [] 3 1, 1500), (SetResult [] 3 1, 3000)])"
    by blast
  from r1 h2 run r2 show ?thesis by blast
qed

section \<open>Games without a winner\<close>

text \<open>
  A game with no winner adds to the wins of neither team. For a stored match whose
  \<open>bestOf\<close> is a number and whose games have no winner, adding games with no winner,
  however many, is saved each time, leaves both counts at 0 and leaves status, winner and
  end time as they were.
\<close>

lemma winnerless_games_numeric_bestOf:
  "(winner g = None \<longrightarrow>
      teamAWins (m\<lparr>games := games m @ [g]\<rparr>) = teamAWins m \<and>
      teamBWins (m\<lparr>games := games m @ [g]\<rparr>) = teamBWins m) \<and>
   (save m = Inr m \<and> bestOf m \<noteq> None \<and> (\<forall>x\<in>set (games m). winner x = None) \<and>
    (\<forall>p\<in>set gs. winner (fst p) = None) \<longrightarrow>
      (\<exists>m'. addGames m gs = Inr m' \<and> games m' = games m @ map fst gs \<and>
            teamAWins m' = 0 \<and> teamBWins m' = 0 \<and>
            status m' = status m \<and> winnerId m' = winnerId m \<and> endTime m' = endTime m))"
proof (intro conjI impI)
  assume "winner g = None"
  then show "teamAWins (m\<lparr>games := games m @ [g]\<rparr>) = teamAWins m"
    and "teamBWins (m\<lparr>games := games m @ [g]\<rparr>) = teamBWins m"
    by (simp_all add: teamAWins_def teamBWins_def won_by_iff)
next
  assume a: "save m = Inr m \<and> bestOf m \<noteq> None \<and> (\<forall>x\<in>set (games m). winner x = None) \<and>
    (\<forall>p\<in>set gs. winner (fst p) = None)"
  let ?m' = "m\<lparr>games := games m @ map fst gs\<rparr>"
  from a have run: "addGames m gs = Inr ?m'" by (simp add: addGames_winnerless)
  from a have "\<forall>x\<in>set (games ?m'). winner x = None" by auto
  then have "teamAWins ?m' = 0" and "teamBWins ?m' = 0"
    unfolding teamAWins_def teamBWins_def by (simp_all add: filter_won_by_none)
  with run show "\<exists>m'. addGames m gs = Inr m' \<and> games m' = games m @ map fst gs \<and>
            teamAWins m' = 0 \<and> teamBWins m' = 0 \<and>
            status m' = status m \<and> winnerId m' = winnerId m \<and> endTime m' = endTime m"
    by simp
qed

text \<open>
  Claim C9. The schema gives \<open>bestOf\<close> a default and a minimum of 1, "Best of must be at
  least 1", and does not require it, and the minimum passes \<open>null\<close>. A create request with
  \<open>bestOf: null\<close> is answered 201 and the match is stored with \<open>bestOf\<close> \<open>null\<close>; its required
  wins are \<open>Math.ceil(null / 2)\<close>, which is 0. The first game added to it, a game with no
  winner, counts for neither team, and the count of team A, 0, is at the required wins: the
  match is completed with competitor 1 (team A) as its winner, by the method and through
  the controller.
\<close>

theorem winnerless_game_completes_null_bestOf:
  "createMatch demo_db (demo_body\<lparr>body_bestOf := Null\<rparr>) 10 =
     (Response 201 ''Match created successfully'' (Some null_best_of_match),
      store demo_db 10 null_best_of_match) \<and>
   bestOf null_best_of_match = None \<and> status null_best_of_match = Scheduled \<and>
   winner (game_won_by None) = None \<and>
   requiredWins null_best_of_match = 0 \<and>
   teamAWins (null_best_of_match\<lparr>games := [game_won_by None]\<rparr>) = 0 \<and>
   addGame null_best_of_match (game_won_by None) 3000 =
     Inr (null_best_of_match\<lparr>games := [game_won_by None], winnerId := Some 1,
            status := Completed, endTime := Some 3000\<rparr>) \<and>
   MatchController_addGame (store demo_db 10 null_best_of_match) 10 empty_game_body 3000 =
     (Response 200 ''Game added successfully''
        (Some (null_best_of_match\<lparr>games := [game_won_by None], winnerId := Some 1,
                 status := Completed, endTime := Some 3000\<rparr>)),
      store (store demo_db 10 null_best_of_match) 10
        (null_best_of_match\<lparr>games := [game_won_by None], winnerId := Some 1,
           status := Completed, endTime := Some 3000\<rparr>))"
proof -
  have c: "createMatch demo_db (demo_body\<lparr>body_bestOf := Null\<rparr>) 10 =
     (Response 201 ''Match created successfully'' (Some null_best_of_match),
      store demo_db 10 null_best_of_match)"
    by (simp add: eval2_defs)
  have f: "bestOf null_best_of_match = None \<and> status null_best_of_match = Scheduled \<and>
      winner (game_won_by None) = None \<and> requiredWins null_best_of_match = 0 \<and>
      teamAWins (null_best_of_match\<lparr>games := [game_won_by None]\<rparr>) = 0"
    by (simp add: eval2_defs)
  have a: "addGame null_best_of_match (game_won_by None) 3000 =
     Inr (null_best_of_match\<lparr>games := [game_won_by None], winnerId := Some 1,
            status := Completed, endTime := Some 3000\<rparr>)"
    by (simp add: eval2_defs)
  have g: "gameData null_best_of_match empty_game_body = game_won_by None"
    by (simp add: eval2_defs)
  have l: "Match_docs (store demo_db 10 null_best_of_match) 10 = Some null_best_of_match"
    by (simp add: store_def)
  from l g a have m: "MatchController_addGame (store demo_db 10 null_best_of_match) 10
      empty_game_body 3000 =
     (Response 200 ''Game added successfully''
        (Some (null_best_of_match\<lparr>games := [game_won_by None], winnerId := Some 1,
                 status := Completed, endTime := Some 3000\<rparr>)),
      store (store demo_db 10 null_best_of_match) 10
        (null_best_of_match\<lparr>games := [game_won_by None], winnerId := Some 1,
           status := Completed, endTime := Some 3000\<rparr>))"
    by (simp add: MatchController_addGame_def)
  from c f a m show ?thesis by blast
qed

theorem winnerless_game_completes_null_bestOf_witness:
  "code (fst (createMatch demo_db (demo_body\<lparr>body_bestOf := Null\<rparr>) 10)) = 201 \<and>
   (\<exists>m'. addGame null_best_of_match (game_won_by None) 3000 = Inr m' \<and>
         games m' = [game_won_by None] \<and> status m' = Completed \<and> winnerId m' = Some 1)"
  using winnerless_game_completes_null_bestOf by simp

section \<open>Adding a game in any status\<close>

text \<open>
  Claim C10. Whether \<open>addGame\<close> is rejected, and with which error, does not depend on the
  status of the match. For a stored match put in any status, with a current time after its
  start time, \<open>addGame\<close> is saved with the game appended and the best-of-N evaluation run
  on the games with the new one: team A at the required wins makes the match completed
  with team A as winner and the current time as end time, otherwise team B at the required
  wins does the same for team B, otherwise the status stays the one the match was in. The
  required wins and the two counts are those of the schema method. So a cancelled match
  becomes completed with team A as its winner when team A reaches the required wins. The
  controller answers 404 for a match that is not stored and otherwise builds the game from
  the body, calls \<open>addGame\<close> on the stored match whatever its status, stores the result
  and answers 200 with it.
\<close>

theorem addGame_ignores_status:
  "(addGame (m\<lparr>status := st\<rparr>) g now = Inl e \<longleftrightarrow> addGame m g now = Inl e) \<and>
   (save m = Inr m \<and> (\<forall>s. startTime m = Some s \<longrightarrow> s < now) \<longrightarrow>
      addGame (m\<lparr>status := st\<rparr>) g now =
        Inr (if requiredWins m \<le> teamAWins (m\<lparr>games := games m @ [g]\<rparr>)
               then m\<lparr>games := games m @ [g], winnerId := Some (teamAId m),
                      status := Completed, endTime := Some now\<rparr>
             else if requiredWins m \<le> teamBWins (m\<lparr>games := games m @ [g]\<rparr>)
               then m\<lparr>games := games m @ [g], winnerId := Some (teamBId m),
                      status := Completed, endTime := Some now\<rparr>
             else m\<lparr>games := games m @ [g], status := st\<rparr>)) \<and>
   requiredWins m = (case bestOf m of None \<Rightarrow> 0 | Some b \<Rightarrow> \<lceil>real_of_int b / 2\<rceil>) \<and>
   teamAWins (m\<lparr>games := gs\<rparr>) = int (length (filter (\<lambda>x. winner x = Some (teamAId m)) gs)) \<and>
   teamBWins (m\<lparr>games := gs\<rparr>) = int (length (filter (\<lambda>x. winner x = Some (teamBId m)) gs)) \<and>
   (save m = Inr m \<and> (\<forall>s. startTime m = Some s \<longrightarrow> s < now) \<longrightarrow>
      (\<exists>m'. addGame (m\<lparr>status := st\<rparr>) g now = Inr m' \<and> games m' = games m @ [g])) \<and>
   (save m = Inr m \<and> (\<forall>s. startTime m = Some s \<longrightarrow> s < now) \<and>
    requiredWins m \<le> teamAWins (m\<lparr>games := games m @ [g]\<rparr>) \<longrightarrow>
      (\<exists>m'. addGame (m\<lparr>status := Cancelled\<rparr>) g now = Inr m' \<and>
            status m' = Completed \<and> winnerId m' = Some (teamAId m))) \<and>
   (save m = Inr m \<and> (\<forall>s. startTime m = Some s \<longrightarrow> s < now) \<and>
    Match_docs db i = Some (m\<lparr>status := st\<rparr>) \<longrightarrow>
      (\<exists>m'. addGame (m\<lparr>status := st\<rparr>) (gameData m body) now = Inr m' \<and>
            MatchController_addGame db i body now =
              (Response 200 ''Game added successfully'' (Some m'), store db i m') \<and>
            games m' = games m @ [gameData m body])) \<and>
   (Match_docs db i = None \<longrightarrow>
      MatchController_addGame db i body now = (Response 404 ''Match not found'' None, db)) \<and>
   gameData (m\<lparr>status := st\<rparr>) body =
     \<lparr> gameNumber = (case body_gameNumber body of
                       None \<Rightarrow> int (length (games m)) + 1
                     | Some n \<Rightarrow> if n = 0 then int (length (games m)) + 1 else n),
       teamAScore = (case body_teamAScore body of None \<Rightarrow> 0 | Some v \<Rightarrow> v),
       teamBScore = (case body_teamBScore body of None \<Rightarrow> 0 | Some v \<Rightarrow> v),
       winner = body_winnerId body,
       game_duration = (case body_duration body of None \<Rightarrow> 0 | Some v \<Rightarrow> v),
       game_notes = (case body_notes body of None \<Rightarrow> [] | Some n \<Rightarrow> n) \<rparr>"
proof (intro conjI impI)
  show "addGame (m\<lparr>status := st\<rparr>) g now = Inl e \<longleftrightarrow> addGame m g now = Inl e"
    by (simp add: addGame_def Let_def teamAWins_def teamBWins_def requiredWins_def
          save_def pre_save_def validators_def)
next
  assume a: "save m = Inr m \<and> (\<forall>s. startTime m = Some s \<longrightarrow> s < now)"
  then show "addGame (m\<lparr>status := st\<rparr>) g now =
        Inr (if requiredWins m \<le> teamAWins (m\<lparr>games := games m @ [g]\<rparr>)
               then m\<lparr>games := games m @ [g], winnerId := Some (teamAId m),
                      status := Completed, endTime := Some now\<rparr>
             else if requiredWins m \<le> teamBWins (m\<lparr>games := games m @ [g]\<rparr>)
               then m\<lparr>games := games m @ [g], winnerId := Some (teamBId m),
                      status := Completed, endTime := Some now\<rparr>
             else m\<lparr>games := games m @ [g], status := st\<rparr>)"
    by (simp add: addGame_def Let_def teamAWins_def teamBWins_def requiredWins_def
          save_Inr validators_def)
next
  show "requiredWins m = (case bestOf m of None \<Rightarrow> 0 | Some b \<Rightarrow> \<lceil>real_of_int b / 2\<rceil>)"
    by (simp add: requiredWins_def)
next
  show "teamAWins (m\<lparr>games := gs\<rparr>) =
      int (length (filter (\<lambda>x. winner x = Some (teamAId m)) gs))"
    by (simp add: teamAWins_def won_by_eq)
next
  show "teamBWins (m\<lparr>games := gs\<rparr>) =
      int (length (filter (\<lambda>x. winner x = Some (teamBId m)) gs))"
    by (simp add: teamBWins_def won_by_eq)
next
  assume a: "save m = Inr m \<and> (\<forall>s. startTime m = Some s \<longrightarrow> s < now)"
  then have "save (m\<lparr>status := st\<rparr>) = Inr (m\<lparr>status := st\<rparr>)"
    by (simp add: save_Inr)
  with a obtain m' where m': "addGame (m\<lparr>status := st\<rparr>) g now = Inr m'"
    using addGame_succeeds [of "m\<lparr>status := st\<rparr>" now g] by auto
  with addGame_cases [OF m'] show "\<exists>m'. addGame (m\<lparr>status := st\<rparr>) g now = Inr m' \<and>
      games m' = games m @ [g]"
    by simp
next
  assume a: "save m = Inr m \<and> (\<forall>s. startTime m = Some s \<longrightarrow> s < now) \<and>
    requiredWins m \<le> teamAWins (m\<lparr>games := games m @ [g]\<rparr>)"
  then show "\<exists>m'. addGame (m\<lparr>status := Cancelled\<rparr>) g now = Inr m' \<and>
            status m' = Completed \<and> winnerId m' = Some (teamAId m)"
    by (auto simp: addGame_def Let_def teamAWins_def requiredWins_def save_Inr validators_def)
next
  assume a: "save m = Inr m \<and> (\<forall>s. startTime m = Some s \<longrightarrow> s < now) \<and>
    Match_docs db i = Some (m\<lparr>status := st\<rparr>)"
  then have "save (m\<lparr>status := st\<rparr>) = Inr (m\<lparr>status := st\<rparr>)"
    by (simp add: save_Inr)
  with a obtain m' where m': "addGame (m\<lparr>status := st\<rparr>) (gameData m body) now = Inr m'"
    using addGame_succeeds [of "m\<lparr>status := st\<rparr>" now "gameData m body"] by auto
  have g: "gameData (m\<lparr>status := st\<rparr>) body = gameData m body"
    by (simp add: gameData_def)
  from a m' g have "MatchController_addGame db i body now =
      (Response 200 ''Game added successfully'' (Some m'), store db i m')"
    by (simp add: MatchController_addGame_def)
  with m' addGame_cases [OF m'] show "\<exists>m'. addGame (m\<lparr>status := st\<rparr>) (gameData m body) now = Inr m' \<and>
            MatchController_addGame db i body now =
              (Response 200 ''Game added successfully'' (Some m'), store db i m') \<and>
            games m' = games m @ [gameData m body]"
    by simp
next
  assume "Match_docs db i = None"
  then show "MatchController_addGame db i body now = (Response 404 ''Match not found'' None, db)"
    by (simp add: MatchController_addGame_def)
next
  show "gameData (m\<lparr>status := st\<rparr>) body =
     \<lparr> gameNumber = (case body_gameNumber body of
                       None \<Rightarrow> int (length (games m)) + 1
                     | Some n \<Rightarrow> if n = 0 then int (length (games m)) + 1 else n),
       teamAScore = (case body_teamAScore body of None \<Rightarrow> 0 | Some v \<Rightarrow> v),
       teamBScore = (case body_teamBScore body of None \<Rightarrow> 0 | Some v \<Rightarrow> v),
       winner = body_winnerId body,
       game_duration = (case body_duration body of None \<Rightarrow> 0 | Some v \<Rightarrow> v),
       game_notes = (case body_notes body of None \<Rightarrow> [] | Some n \<Rightarrow> n) \<rparr>"
    by (simp add: gameData_def or_default_def split: option.splits)
qed

theorem addGame_ignores_status_witness:
  "save (demo_ongoing\<lparr>bestOf := Some 1\<rparr>) = Inr (demo_ongoing\<lparr>bestOf := Some 1\<rparr>) \<and>
   status cancelled_best_of_1 = Cancelled \<and>
   addGame cancelled_best_of_1 (game_won_by (Some 1)) 3000 =
     Inr (cancelled_best_of_1\<lparr>games := [game_won_by (Some 1)], winnerId := Some 1,
            status := Completed, endTime := Some 3000\<rparr>) \<and>
   addGame cancelled_best_of_1 (game_won_by None) 3000 =
     Inr (cancelled_best_of_1\<lparr>games := [game_won_by None]\<rparr>) \<and>
   MatchController_addGame (store demo_db 10 cancelled_best_of_1) 10
       (empty_game_body\<lparr>body_winnerId := Some 1\<rparr>) 3000 =
     (Response 200 ''Game added successfully''
        (Some (cancelled_best_of_1\<lparr>games := [game_won_by (Some 1)], winnerId := Some 1,
                 status := Completed, endTime := Some 3000\<rparr>)),
      store (store demo_db 10 cancelled_best_of_1) 10
        (cancelled_best_of_1\<lparr>games := [game_won_by (Some 1)], winnerId := Some 1,
           status := Completed, endTime := Some 3000\<rparr>))"
proof -
  let ?m = "demo_ongoing\<lparr>bestOf := Some 1\<rparr>"
  let ?db = "store demo_db 10 cancelled_best_of_1"
  let ?body = "empty_game_body\<lparr>body_winnerId := Some 1\<rparr>"
  have s: "save ?m = Inr ?m \<and> (\<forall>s. startTime ?m = Some s \<longrightarrow> s < 3000)"
    by (simp add: eval_defs)
  have c: "?m\<lparr>status := Cancelled\<rparr> = cancelled_best_of_1"
    by (simp add: cancelled_best_of_1_def)
  have st: "status cancelled_best_of_1 = Cancelled"
    by (simp add: cancelled_best_of_1_def)
  have w1: "requiredWins ?m \<le> teamAWins (?m\<lparr>games := games ?m @ [game_won_by (Some 1)]\<rparr>)"
    by (simp add: eval_defs)
  have w0: "\<not> requiredWins ?m \<le> teamAWins (?m\<lparr>games := games ?m @ [game_won_by None]\<rparr>)"
      "\<not> requiredWins ?m \<le> teamBWins (?m\<lparr>games := games ?m @ [game_won_by None]\<rparr>)"
    by (simp_all add: eval_defs)
  have f: "games ?m = [] \<and> teamAId ?m = 1" by (simp add: demo_defs)
  from addGame_ignores_status [where m = ?m and st = Cancelled and now = 3000
      and g = "game_won_by (Some 1)"] s
  have "addGame (?m\<lparr>status := Cancelled\<rparr>) (game_won_by (Some 1)) 3000 =
        Inr (if requiredWins ?m \<le> teamAWins (?m\<lparr>games := games ?m @ [game_won_by (Some 1)]\<rparr>)
               then ?m\<lparr>games := games ?m @ [game_won_by (Some 1)], winnerId := Some (teamAId ?m),
                      status := Completed, endTime := Some 3000\<rparr>
             else if requiredWins ?m \<le> teamBWins (?m\<lparr>games := games ?m @ [game_won_by (Some 1)]\<rparr>)
               then ?m\<lparr>games := games ?m @ [game_won_by (Some 1)], winnerId := Some (teamBId ?m),
                      status := Completed, endTime := Some 3000\<rparr>
             else ?m\<lparr>games := games ?m @ [game_won_by (Some 1)], status := Cancelled\<rparr>)"
    by blast
  with w1 f have r1: "addGame cancelled_best_of_1 (game_won_by (Some 1)) 3000 =
     Inr (cancelled_best_of_1\<lparr>games := [game_won_by (Some 1)], winnerId := Some 1,
            status := Completed, endTime := Some 3000\<rparr>)"
    by (simp add: cancelled_best_of_1_def)
  from addGame_ignores_status [where m = ?m and st = Cancelled and now = 3000
      and g = "game_won_by None"] s
  have "addGame (?m\<lparr>status := Cancelled\<rparr>) (game_won_by None) 3000 =
        Inr (if requiredWins ?m \<le> teamAWins (?m\<lparr>games := games ?m @ [game_won_by None]\<rparr>)
               then ?m\<lparr>games := games ?m @ [game_won_by None], winnerId := Some (teamAId ?m),
                      status := Completed, endTime := Some 3000\<rparr>
             else if requiredWins ?m \<le> teamBWins (?m\<lparr>games := games ?m @ [game_won_by None]\<rparr>)
               then ?m\<lparr>games := games ?m @ [game_won_by None], winnerId := Some (teamBId ?m),
                      status := Completed, endTime := Some 3000\<rparr>
             else ?m\<lparr>games := games ?m @ [game_won_by None], status := Cancelled\<rparr>)"
    by blast
  with w0 f have r0: "addGame cancelled_best_of_1 (game_won_by None) 3000 =
     Inr (cancelled_best_of_1\<lparr>games := [game_won_by None]\<rparr>)"
    by (simp add: cancelled_best_of_1_def)
  have l: "Match_docs ?db 10 = Some (?m\<lparr>status := Cancelled\<rparr>)"
    by (simp add: store_def c)
  have g: "gameData ?m ?body = game_won_by (Some 1)"
    by (simp add: gameData_def or_default_def empty_game_body_def demo_defs)
  from addGame_ignores_status [where m = ?m and st = Cancelled and now = 3000
      and db = ?db and i = 10 and body = ?body] s l
  obtain m' where m': "addGame (?m\<lparr>status := Cancelled\<rparr>) (gameData ?m ?body) 3000 = Inr m'"
      "MatchController_addGame ?db 10 ?body 3000 =
         (Response 200 ''Game added successfully'' (Some m'), store ?db 10 m')"
    by blast
  from m'(1) g c r1 have "m' = cancelled_best_of_1\<lparr>games := [game_won_by (Some 1)],
      winnerId := Some 1, status := Completed, endTime := Some 3000\<rparr>"
    by simp
  with m'(2) have r2: "MatchController_addGame ?db 10 ?body 3000 =
     (Response 200 ''Game added successfully''
        (Some (cancelled_best_of_1\<lparr>games := [game_won_by (Some 1)], winnerId := Some 1,
                 status := Completed, endTime := Some 3000\<rparr>)),
      store ?db 10
        (cancelled_best_of_1\<lparr>games := [game_won_by (Some 1)], winnerId := Some 1,
           status := Completed, endTime := Some 3000\<rparr>))"
    by simp
  from s st r1 r0 r2 show ?thesis by blast
qed

end
